theory Spec2Isabelle
  imports Complex_Main "HOL-Library.Sublist"
begin

section \<open>Python values\<close>

text \<open>
  A Python \<open>float\<close>, idealised. A finite value is an exact real number: rounding,
  overflow, underflow and the infinities are not modelled. The negative zero and the
  NaN of IEEE 754 are kept, because the program can observe both: \<open>math.atan2\<close>
  tells \<open>-0.0\<close> from \<open>0.0\<close>, and a comparison with NaN is false
  (\<open>!=\<close> is true). \<open>Fin 0\<close> is the positive zero.
\<close>

datatype pyfloat = Fin real | NegZero | NaN

text \<open>The exceptions the program can raise.\<close>

datatype py_error =
    ValueError
  | IndexError
  | FileNotFoundError
  | EmptyDataError
  | ParserError
  | SystemExit string

fun fval :: "pyfloat \<Rightarrow> real" where
  "fval (Fin r) = r"
| "fval NegZero = 0"
| "fval NaN = 0"

fun is_nan :: "pyfloat \<Rightarrow> bool" where
  "is_nan NaN = True"
| "is_nan _ = False"

fun signbit :: "pyfloat \<Rightarrow> bool" where
  "signbit (Fin r) = (r < 0)"
| "signbit NegZero = True"
| "signbit NaN = False"

text \<open>The float with sign \<open>s\<close> and value \<open>v\<close>; the sign only shows on a zero.\<close>

definition mk :: "bool \<Rightarrow> real \<Rightarrow> pyfloat" where
  "mk s v = (if v = 0 \<and> s then NegZero else Fin v)"


definition fadd :: "pyfloat \<Rightarrow> pyfloat \<Rightarrow> pyfloat" where
  "fadd a b =
     (if is_nan a \<or> is_nan b then NaN
      else if a = NegZero \<and> b = NegZero then NegZero
      else Fin (fval a + fval b))"


definition fmul :: "pyfloat \<Rightarrow> pyfloat \<Rightarrow> pyfloat" where
  "fmul a b =
     (if is_nan a \<or> is_nan b then NaN
      else mk (signbit a \<noteq> signbit b) (fval a * fval b))"

text \<open>
  \<open>a / b\<close>. Python raises ZeroDivisionError on a zero divisor; the only divisors
  of the program are the nonzero constants \<open>factor_escala\<close> and
  \<open>SCALE_DENOMINATOR\<close>, so that branch is not modelled.
\<close>

definition fdiv :: "pyfloat \<Rightarrow> pyfloat \<Rightarrow> pyfloat" where
  "fdiv a b =
     (if is_nan a \<or> is_nan b then NaN
      else mk (signbit a \<noteq> signbit b) (fval a / fval b))"


text \<open>\<open>a > b\<close> and \<open>a != b\<close>.\<close>

definition fgt :: "pyfloat \<Rightarrow> pyfloat \<Rightarrow> bool" where
  "fgt a b = (\<not> is_nan a \<and> \<not> is_nan b \<and> fval b < fval a)"

definition fne :: "pyfloat \<Rightarrow> pyfloat \<Rightarrow> bool" where
  "fne a b = (is_nan a \<or> is_nan b \<or> fval a \<noteq> fval b)"

text \<open>\<open>math.sqrt\<close>: a domain error on a negative argument, \<open>-0.0\<close> on \<open>-0.0\<close>.\<close>

fun math_sqrt :: "pyfloat \<Rightarrow> py_error + pyfloat" where
  "math_sqrt NaN = Inr NaN"
| "math_sqrt NegZero = Inr NegZero"
| "math_sqrt (Fin r) = (if r < 0 then Inl ValueError else Inr (Fin (sqrt r)))"

section \<open>generar\_kml.py: stride, minimum-distance filter, affine projection\<close>

type_synonym point = "pyfloat \<times> pyfloat"



definition factor_escala :: pyfloat where
  "factor_escala = Fin 174000000"

definition sun_lat :: pyfloat where
  "sun_lat = Fin (-25.280945)"

definition sun_lon :: pyfloat where
  "sun_lon = Fin (-57.609083)"


text \<open>
  \<open>xs[::k]\<close> for a step \<open>k \<ge> 1\<close>: the elements at the indices \<open>0, k, 2k, ...\<close>.
  The helper counts how many elements are still to be skipped.
\<close>

fun slice_from :: "nat \<Rightarrow> nat \<Rightarrow> 'a list \<Rightarrow> 'a list" where
  "slice_from k skip [] = []"
| "slice_from k 0 (x # xs) = x # slice_from k (k - 1) xs"
| "slice_from k (Suc skip) (x # xs) = slice_from k skip xs"





text \<open>\<open>line.split(",")\<close>: always at least one part.\<close>

fun split_on :: "char \<Rightarrow> string \<Rightarrow> string list" where
  "split_on sep [] = [[]]"
| "split_on sep (c # cs) =
     (if c = sep then [] # split_on sep cs
      else (case split_on sep cs of
              [] \<Rightarrow> [[c]]
            | w # ws \<Rightarrow> (c # w) # ws))"







text \<open>The projection in the output loop: \<open>(lon, lat)\<close> of a kept point.\<close>

definition lonlat :: "point \<Rightarrow> pyfloat \<times> pyfloat" where
  "lonlat p =
     (let lon = fadd sun_lon (fdiv (fst p) factor_escala);
          lat = fadd sun_lat (fdiv (snd p) factor_escala)
      in (lon, lat))"

section \<open>voyagers\_to\_kml.py: the spherical projection\<close>

text \<open>The scale \<open>1 : 174,000,000\<close>, the metres in an astronomical unit, and their quotient.\<close>

definition SCALE_DENOMINATOR :: nat where
  "SCALE_DENOMINATOR = 174000000"

definition AU_METERS :: pyfloat where
  "AU_METERS = Fin 149597870000"

definition SCALE_M_PER_AU :: pyfloat where
  "SCALE_M_PER_AU = fdiv AU_METERS (Fin (real SCALE_DENOMINATOR))"

text \<open>\<open>math.hypot\<close>: never negative, and zero only when both arguments are zeros.\<close>

definition math_hypot :: "pyfloat \<Rightarrow> pyfloat \<Rightarrow> pyfloat" where
  "math_hypot a b =
     (if is_nan a \<or> is_nan b then NaN else Fin (sqrt ((fval a)\<^sup>2 + (fval b)\<^sup>2)))"

text \<open>
  \<open>math.atan2(y, x)\<close>, with the special cases of C99 Annex F that CPython follows: for
  \<open>y = \<plusminus>0\<close> the result is \<open>\<plusminus>0\<close> when \<open>x\<close> is positive or \<open>+0\<close>, and \<open>\<plusminus>\<pi>\<close> when
  \<open>x\<close> is negative or \<open>-0\<close>; for \<open>x = \<plusminus>0\<close> and \<open>y \<noteq> 0\<close> it is \<open>\<plusminus>\<pi>/2\<close>.
\<close>

definition math_atan2 :: "pyfloat \<Rightarrow> pyfloat \<Rightarrow> pyfloat" where
  "math_atan2 y x =
     (if is_nan y \<or> is_nan x then NaN
      else if fval y = 0 then
        (if signbit x then (if signbit y then Fin (- pi) else Fin pi)
         else (if signbit y then NegZero else Fin 0))
      else if fval x = 0 then (if 0 < fval y then Fin (pi / 2) else Fin (- pi / 2))
      else if 0 < fval x then Fin (arctan (fval y / fval x))
      else if 0 < fval y then Fin (arctan (fval y / fval x) + pi)
      else Fin (arctan (fval y / fval x) - pi))"

text \<open>\<open>math.degrees(a)\<close> is \<open>a * (180 / pi)\<close>.\<close>

definition math_degrees :: "pyfloat \<Rightarrow> pyfloat" where
  "math_degrees a = fmul a (Fin (180 / pi))"

text \<open>\<open>xyz_to_lonlatalt(x, y, z)\<close>, statement by statement.\<close>

definition xyz_to_lonlatalt ::
  "pyfloat \<Rightarrow> pyfloat \<Rightarrow> pyfloat \<Rightarrow> py_error + pyfloat \<times> pyfloat \<times> pyfloat" where
  "xyz_to_lonlatalt x y z =
     (let r_xy = math_hypot x y in
      case math_sqrt (fadd (fadd (fmul x x) (fmul y y)) (fmul z z)) of
        Inl e \<Rightarrow> Inl e
      | Inr r \<Rightarrow>
          (let lon = math_degrees (math_atan2 y x);
               lat = (if fne r_xy (Fin 0) then math_degrees (math_atan2 z r_xy)
                      else (if fgt z (Fin 0) then Fin 90 else Fin (- 90)));
               alt_m = fmul r SCALE_M_PER_AU
           in Inr (lon, lat, alt_m)))"


section \<open>voyagers\_to\_kml.py: the emitter\<close>

text \<open>The newline and the double quote, as strings.\<close>

definition nl :: string where "nl = [CHR 0x0A]"
definition dq :: string where "dq = [CHR 0x22]"

text \<open>\<open>str(n)\<close> for an integer \<open>n \<ge> 0\<close>.\<close>

fun str_nat :: "nat \<Rightarrow> string" where
  "str_nat n = (if n < 10 then [char_of (48 + n)] else str_nat (n div 10) @ [char_of (48 + n mod 10)])"

declare str_nat.simps [simp del]

text \<open>\<open>sep.join(lines)\<close>\<close>

fun str_join :: "string \<Rightarrow> string list \<Rightarrow> string" where
  "str_join sep [] = []"
| "str_join sep [s] = s"
| "str_join sep (s # t # ss) = s @ sep @ str_join sep (t # ss)"

text \<open>
  Formatting is a parameter of the model: \<open>str_of\<close> is \<open>str\<close> on a time value (the
  \<open>{t}\<close> of the f-string), and \<open>fixed d\<close> is the format \<open>.df\<close> on a float.
\<close>

record 't formatting =
  str_of :: "'t \<Rightarrow> string"
  fixed :: "nat \<Rightarrow> pyfloat \<Rightarrow> string"

text \<open>The templates, with their \<open>format\<close> fields as arguments.\<close>

definition KML_HEADER :: string where
  "KML_HEADER =
     ''<?xml version='' @ dq @ ''1.0'' @ dq @ '' encoding='' @ dq @ ''UTF-8'' @ dq @ ''?>'' @ nl @
     ''<kml xmlns='' @ dq @ ''http://www.opengis.net/kml/2.2'' @ dq @ nl @
     ''     xmlns:gx='' @ dq @ ''http://www.google.com/kml/ext/2.2'' @ dq @ ''>'' @ nl @
     ''  <Document>'' @ nl @
     ''    <name>Solar System Trajectories (Scale 1:'' @ str_nat SCALE_DENOMINATOR @ '')</name>'' @ nl @
     ''    <Snippet>Heliocentric positions mapped to non-geographic KML. AltitudeMode=absolute.</Snippet>'' @ nl @
     ''    <open>1</open>'' @ nl"

definition KML_FOOTER :: string where
  "KML_FOOTER = ''  </Document>'' @ nl @ ''</kml>'' @ nl"

definition STYLE_TEMPLATE :: "string \<Rightarrow> string \<Rightarrow> string" where
  "STYLE_TEMPLATE style_id width =
     nl @
     ''    <Style id='' @ dq @ style_id @ dq @ ''>'' @ nl @
     ''      <LineStyle>'' @ nl @
     ''        <width>'' @ width @ ''</width>'' @ nl @
     ''      </LineStyle>'' @ nl @
     ''      <PolyStyle>'' @ nl @
     ''        <fill>0</fill>'' @ nl @
     ''        <outline>1</outline>'' @ nl @
     ''      </PolyStyle>'' @ nl @
     ''    </Style>'' @ nl"

definition PLACEMARK_TEMPLATE :: "string \<Rightarrow> string \<Rightarrow> string \<Rightarrow> string" where
  "PLACEMARK_TEMPLATE name style_id when_coords =
     nl @
     ''    <Placemark>'' @ nl @
     ''      <name>'' @ name @ ''</name>'' @ nl @
     ''      <styleUrl>#'' @ style_id @ ''</styleUrl>'' @ nl @
     ''      <gx:Track>'' @ nl @
     when_coords @ nl @
     ''      </gx:Track>'' @ nl @
     ''    </Placemark>'' @ nl"

text \<open>The style id \<open>f"s{idx+1}"\<close>.\<close>

definition style_id :: "nat \<Rightarrow> string" where
  "style_id idx = ''s'' @ str_nat (idx + 1)"

text \<open>The two lines of a sample.\<close>

definition when_line :: "'t formatting \<Rightarrow> 't \<Rightarrow> string" where
  "when_line fm t = ''        <when>'' @ str_of fm t @ ''</when>''"

definition coord_line :: "'t formatting \<Rightarrow> pyfloat \<Rightarrow> pyfloat \<Rightarrow> pyfloat \<Rightarrow> string" where
  "coord_line fm lon lat alt_m =
     ''        <gx:coord>'' @ fixed fm 9 lon @ '' '' @ fixed fm 9 lat @ '' '' @ fixed fm 3 alt_m @
     ''</gx:coord>''"

text \<open>\<open>zip(times, X, Y, Z)\<close>: as long as the shortest of the four lists.\<close>

type_synonym 't sample = "'t \<times> pyfloat \<times> pyfloat \<times> pyfloat"

definition zip4 :: "'t list \<Rightarrow> pyfloat list \<Rightarrow> pyfloat list \<Rightarrow> pyfloat list \<Rightarrow> 't sample list" where
  "zip4 tms X Y Z = zip tms (zip X (zip Y Z))"

text \<open>
  The list \<open>lines\<close> of \<open>make_when_coords\<close> after the loop over the samples.
\<close>

fun when_coord_lines :: "'t formatting \<Rightarrow> 't sample list \<Rightarrow> py_error + string list" where
  "when_coord_lines fm [] = Inr []"
| "when_coord_lines fm ((t, x, y, z) # rest) =
     (case xyz_to_lonlatalt x y z of
        Inl e \<Rightarrow> Inl e
      | Inr (lon, lat, alt_m) \<Rightarrow>
          (case when_coord_lines fm rest of
             Inl e \<Rightarrow> Inl e
           | Inr lines \<Rightarrow> Inr (when_line fm t # coord_line fm lon lat alt_m # lines)))"

text \<open>\<open>make_when_coords(times, X, Y, Z)\<close>\<close>

definition make_when_coords ::
  "'t formatting \<Rightarrow> 't list \<Rightarrow> pyfloat list \<Rightarrow> pyfloat list \<Rightarrow> pyfloat list \<Rightarrow> py_error + string" where
  "make_when_coords fm tms X Y Z =
     (case when_coord_lines fm (zip4 tms X Y Z) of
        Inl e \<Rightarrow> Inl e
      | Inr lines \<Rightarrow> Inr (str_join nl lines))"

text \<open>A series \<open>(name, T, X, Y, Z)\<close>.\<close>

type_synonym 't series = "string \<times> 't list \<times> pyfloat list \<times> pyfloat list \<times> pyfloat list"

text \<open>
  The first loop of \<open>build_kml\<close>: one style per series, of width \<open>1.5\<close>.
\<close>

definition style_parts :: "'t series list \<Rightarrow> string list" where
  "style_parts series = map (\<lambda>idx. STYLE_TEMPLATE (style_id idx) ''1.5'') [0 ..< length series]"

text \<open>
  The second loop of \<open>build_kml\<close>, from the index \<open>idx\<close> on: one placemark per series.
\<close>

fun placemark_parts :: "'t formatting \<Rightarrow> nat \<Rightarrow> 't series list \<Rightarrow> py_error + string list" where
  "placemark_parts fm idx [] = Inr []"
| "placemark_parts fm idx ((name, T, X, Y, Z) # rest) =
     (case make_when_coords fm T X Y Z of
        Inl e \<Rightarrow> Inl e
      | Inr when_coords \<Rightarrow>
          (case placemark_parts fm (idx + 1) rest of
             Inl e \<Rightarrow> Inl e
           | Inr ps \<Rightarrow> Inr (PLACEMARK_TEMPLATE name (style_id idx) when_coords # ps)))"

text \<open>The list \<open>parts\<close> at the end of \<open>build_kml\<close>, and its concatenation.\<close>

definition build_kml_parts :: "'t formatting \<Rightarrow> 't series list \<Rightarrow> py_error + string list" where
  "build_kml_parts fm series =
     (case placemark_parts fm 0 series of
        Inl e \<Rightarrow> Inl e
      | Inr ps \<Rightarrow> Inr ([KML_HEADER] @ style_parts series @ ps @ [KML_FOOTER]))"

definition build_kml :: "'t formatting \<Rightarrow> 't series list \<Rightarrow> py_error + string" where
  "build_kml fm series =
     (case build_kml_parts fm series of
        Inl e \<Rightarrow> Inl e
      | Inr parts \<Rightarrow> Inr (concat parts))"

section \<open>voyagers\_to\_kml.py: the loader\<close>

text \<open>
  A cell of a pandas table read with \<open>header=None\<close>: the text of a field, or the
  NaN that fills a row with fewer fields than the table has columns. The type
  inference of pandas is not modelled: a cell keeps the text of its field, and
  \<open>astype(float)\<close> converts it.
\<close>

datatype cell = Missing | Field string

text \<open>A \<open>DataFrame\<close>: every row has \<open>ncols\<close> cells.\<close>

record frame =
  ncols :: nat
  rows :: "cell list list"

text \<open>
  \<open>pd.read_csv(csv_path, header=None, comment="#")\<close>, for a text without quoted
  fields, whose lines end with a newline character. A line that is empty, blank or starts with
  \<open>#\<close> is skipped; anything from a \<open>#\<close> on is dropped from a line; the fields are
  separated by commas.
\<close>

definition is_space :: "char \<Rightarrow> bool" where
  "is_space c = (c = CHR '' '' \<or> c = CHR 0x09)"

definition skipped_line :: "string \<Rightarrow> bool" where
  "skipped_line l = (list_all is_space l \<or> (case l of [] \<Rightarrow> False | c # cs \<Rightarrow> c = CHR ''#''))"

definition fields_of :: "string \<Rightarrow> string list" where
  "fields_of l = split_on CHR '','' (takeWhile (\<lambda>c. c \<noteq> CHR ''#'') l)"

definition csv_rows :: "string \<Rightarrow> string list list" where
  "csv_rows content = map fields_of (filter (\<lambda>l. \<not> skipped_line l) (split_on CHR 0x0A content))"

text \<open>
  The first row sets the number of columns. A later row with more fields is an error
  of the parser; a later row with fewer fields is filled with NaN.
\<close>

definition pad_row :: "nat \<Rightarrow> string list \<Rightarrow> cell list" where
  "pad_row w r = map Field r @ replicate (w - length r) Missing"

definition read_csv :: "string \<Rightarrow> py_error + frame" where
  "read_csv content =
     (case csv_rows content of
        [] \<Rightarrow> Inl EmptyDataError
      | first # rest \<Rightarrow>
          if list_ex (\<lambda>r. length first < length r) rest then Inl ParserError
          else Inr \<lparr>ncols = length first, rows = map (pad_row (length first)) (first # rest)\<rparr>)"

text \<open>\<open>df.iloc[:, cols]\<close>: IndexError when a position is out of bounds.\<close>

definition iloc_columns :: "nat list \<Rightarrow> frame \<Rightarrow> py_error + frame" where
  "iloc_columns cols df =
     (if list_all (\<lambda>i. i < ncols df) cols
      then Inr \<lparr>ncols = length cols, rows = map (\<lambda>r. map (\<lambda>i. r ! i) cols) (rows df)\<rparr>
      else Inl IndexError)"

text \<open>A column of a table, as a list.\<close>

definition column :: "nat \<Rightarrow> frame \<Rightarrow> cell list" where
  "column i df = map (\<lambda>r. r ! i) (rows df)"

text \<open>
  \<open>df[c].astype(float)\<close>: NaN stays NaN, a field goes through the conversion \<open>pf\<close>,
  and a field that is not a number raises ValueError.
\<close>

definition cell_float :: "(string \<Rightarrow> pyfloat option) \<Rightarrow> cell \<Rightarrow> pyfloat option" where
  "cell_float pf c = (case c of Missing \<Rightarrow> Some NaN | Field s \<Rightarrow> pf s)"

definition astype_float :: "(string \<Rightarrow> pyfloat option) \<Rightarrow> cell list \<Rightarrow> py_error + pyfloat list" where
  "astype_float pf col =
     (case those (map (cell_float pf) col) of
        None \<Rightarrow> Inl ValueError
      | Some vs \<Rightarrow> Inr vs)"

text \<open>
  \<open>load_vectors\<close> on the text of the file: the columns 1 to 4 as
  \<open>(Datetime, X, Y, Z)\<close>, the last three as floats.
\<close>

definition load_text ::
  "(string \<Rightarrow> pyfloat option) \<Rightarrow> string
     \<Rightarrow> py_error + cell list \<times> pyfloat list \<times> pyfloat list \<times> pyfloat list" where
  "load_text pf content =
     (case read_csv content of
        Inl e \<Rightarrow> Inl e
      | Inr df0 \<Rightarrow>
          (case iloc_columns [1, 2, 3, 4] df0 of
             Inl e \<Rightarrow> Inl e
           | Inr df \<Rightarrow>
               (case astype_float pf (column 1 df) of
                  Inl e \<Rightarrow> Inl e
                | Inr X \<Rightarrow>
                    (case astype_float pf (column 2 df) of
                       Inl e \<Rightarrow> Inl e
                     | Inr Y \<Rightarrow>
                         (case astype_float pf (column 3 df) of
                            Inl e \<Rightarrow> Inl e
                          | Inr Z \<Rightarrow> Inr (column 0 df, X, Y, Z))))))"

text \<open>\<open>load_vectors(csv_path)\<close>, with the files as a map from paths to texts.\<close>

definition load_vectors ::
  "(string \<Rightarrow> pyfloat option) \<Rightarrow> (string \<rightharpoonup> string) \<Rightarrow> string
     \<Rightarrow> py_error + cell list \<times> pyfloat list \<times> pyfloat list \<times> pyfloat list" where
  "load_vectors pf files csv_path =
     (case files csv_path of
        None \<Rightarrow> Inl FileNotFoundError
      | Some content \<Rightarrow> load_text pf content)"

section \<open>voyagers\_to\_kml.py: main\<close>

text \<open>
  What a run does to the world: the files it opens to read, the file it writes, and
  the two lines it prints at the end.
\<close>

datatype effect = ReadFile string | WriteFile string | PrintWritten string | PrintScale

record world =
  fs :: "string \<rightharpoonup> string"
  trace :: "effect list"

text \<open>The arguments after \<open>parser.parse_args()\<close>.\<close>

record cli_args =
  inputs :: "string list"
  names :: "string list"
  out_path :: string

text \<open>The loop of \<open>main\<close> over \<open>zip(args.inputs, args.names)\<close>.\<close>

fun load_series ::
  "(string \<Rightarrow> pyfloat option) \<Rightarrow> (string \<times> string) list \<Rightarrow> world
     \<Rightarrow> (py_error + cell series list) \<times> world" where
  "load_series pf [] w = (Inr [], w)"
| "load_series pf ((inp, name) # rest) w =
     (let w1 = w\<lparr>trace := trace w @ [ReadFile inp]\<rparr> in
      case load_vectors pf (fs w) inp of
        Inl e \<Rightarrow> (Inl e, w1)
      | Inr (T, X, Y, Z) \<Rightarrow>
          (case load_series pf rest w1 of
             (Inl e, w2) \<Rightarrow> (Inl e, w2)
           | (Inr series, w2) \<Rightarrow> (Inr ((name, T, X, Y, Z) # series), w2)))"

text \<open>
  \<open>main()\<close> from the check of the argument counts on. Writing the output file is
  taken to succeed.
\<close>

definition main ::
  "(string \<Rightarrow> pyfloat option) \<Rightarrow> cell formatting \<Rightarrow> cli_args \<Rightarrow> world
     \<Rightarrow> (py_error + unit) \<times> world" where
  "main pf fm args w =
     (if length (inputs args) \<noteq> length (names args)
      then (Inl (SystemExit ''--inputs and --names must have the same length.''), w)
      else
        (case load_series pf (zip (inputs args) (names args)) w of
           (Inl e, w1) \<Rightarrow> (Inl e, w1)
         | (Inr series, w1) \<Rightarrow>
             (case build_kml fm series of
                Inl e \<Rightarrow> (Inl e, w1)
              | Inr kml \<Rightarrow>
                  (Inr (),
                   w1\<lparr>fs := (fs w1)(out_path args \<mapsto> kml),
                      trace := trace w1 @
                        [WriteFile (out_path args), PrintWritten (out_path args), PrintScale]\<rparr>))))"

text \<open>
  The exit status of the process: 0 on a normal return, 1 on \<open>SystemExit\<close> with a
  message (printed to the standard error) and on any other uncaught exception.
\<close>

fun exit_status :: "py_error + unit \<Rightarrow> nat" where
  "exit_status (Inr u) = 0"
| "exit_status (Inl e) = 1"

section \<open>Notions used to state the properties\<close>
















section \<open>Facts about the arithmetic\<close>

lemma fval_mk: "fval (mk s v) = v"
  by (simp add: mk_def)

lemma is_nan_mk: "\<not> is_nan (mk s v)"
  by (simp add: mk_def)

lemma is_nan_iff: "is_nan a \<longleftrightarrow> a = NaN"
  by (cases a) simp_all








section \<open>The minimum-distance filter\<close>










lemma slice_from_subseq: "subseq (slice_from k n xs) xs"
  by (induction k n xs rule: slice_from.induct) auto









section \<open>The affine projection\<close>

text \<open>
  C5. For every finite point \<open>(x, y)\<close> the planar projector returns
  \<open>(sun_lon + x / factor_escala, sun_lat + y / factor_escala)\<close>, with
  \<open>sun_lon = -57.609083\<close>, \<open>sun_lat = -25.280945\<close> and
  \<open>factor_escala = 174000000\<close>.
\<close>

theorem lonlat_affine:
  assumes "\<not> is_nan x" and "\<not> is_nan y"
  shows "lonlat (x, y) =
           (Fin (-57.609083 + fval x / 174000000), Fin (-25.280945 + fval y / 174000000))"
  using assms
  by (simp add: lonlat_def fadd_def fdiv_def sun_lon_def sun_lat_def factor_escala_def
      fval_mk is_nan_mk mk_def)

text \<open>The point \<open>(174000000, 0)\<close> is mapped to \<open>(-56.609083, -25.280945)\<close>.\<close>

theorem lonlat_affine_witness:
  "\<not> is_nan (Fin 174000000) \<and> \<not> is_nan (Fin 0) \<and>
   lonlat (Fin 174000000, Fin 0) = (Fin (-56.609083), Fin (-25.280945))"
  using lonlat_affine [of "Fin 174000000" "Fin 0"] by simp

section \<open>The spherical projection\<close>






lemma fval_fmul: "\<not> is_nan a \<Longrightarrow> \<not> is_nan b \<Longrightarrow> fval (fmul a b) = fval a * fval b"
  by (simp add: fmul_def fval_mk)






lemma fval_hypot: "\<not> is_nan a \<Longrightarrow> \<not> is_nan b \<Longrightarrow> fval (math_hypot a b) = sqrt ((fval a)\<^sup>2 + (fval b)\<^sup>2)"
  by (simp add: math_hypot_def)
















section \<open>The emitter\<close>












section \<open>The loader\<close>


lemma split_on_nonempty: "split_on sep s \<noteq> []"
  by (induction s) (auto split: list.splits)




lemma read_csv_rows:
  assumes "read_csv content = Inr df"
  shows "\<exists>first rest. csv_rows content = first # rest \<and> ncols df = length first \<and>
           rows df = map (pad_row (length first)) (first # rest) \<and>
           \<not> list_ex (\<lambda>r. length first < length r) rest"
  using assms by (auto simp add: read_csv_def split: list.splits if_splits)











section \<open>The command line\<close>

text \<open>
  C8. When the numbers of \<open>--inputs\<close> and of \<open>--names\<close> differ, \<open>main\<close> raises
  \<open>SystemExit\<close> with its message, the exit status is not zero, and the world is as
  before: no file was read, none written.
\<close>

theorem main_argument_mismatch:
  assumes "length (inputs args) \<noteq> length (names args)"
  shows "main pf fm args w =
           (Inl (SystemExit ''--inputs and --names must have the same length.''), w) \<and>
         exit_status (fst (main pf fm args w)) \<noteq> 0 \<and>
         trace (snd (main pf fm args w)) = trace w \<and>
         fs (snd (main pf fm args w)) = fs w"
  using assms by (simp add: main_def)

text \<open>
  Two inputs and one name, as in the spec: the run stops at the check, whatever the
  files are.
\<close>

theorem main_argument_mismatch_witness:
  "\<forall>pf fm w.
     length (inputs \<lparr>inputs = [''a.csv'', ''b.csv''], names = [''A''], out_path = ''out.kml''\<rparr>) \<noteq>
     length (names \<lparr>inputs = [''a.csv'', ''b.csv''], names = [''A''], out_path = ''out.kml''\<rparr>) \<and>
     main pf fm \<lparr>inputs = [''a.csv'', ''b.csv''], names = [''A''], out_path = ''out.kml''\<rparr> w =
       (Inl (SystemExit ''--inputs and --names must have the same length.''), w)"
proof (intro allI)
  fix pf fm w
  have h: "length (inputs \<lparr>inputs = [''a.csv'', ''b.csv''], names = [''A''], out_path = ''out.kml''\<rparr>) \<noteq>
     length (names \<lparr>inputs = [''a.csv'', ''b.csv''], names = [''A''], out_path = ''out.kml''\<rparr>)"
    by simp
  from main_argument_mismatch[OF h, of pf fm w] h
  show "length (inputs \<lparr>inputs = [''a.csv'', ''b.csv''], names = [''A''], out_path = ''out.kml''\<rparr>) \<noteq>
     length (names \<lparr>inputs = [''a.csv'', ''b.csv''], names = [''A''], out_path = ''out.kml''\<rparr>) \<and>
     main pf fm \<lparr>inputs = [''a.csv'', ''b.csv''], names = [''A''], out_path = ''out.kml''\<rparr> w =
       (Inl (SystemExit ''--inputs and --names must have the same length.''), w)"
    by blast
qed

end
